theory Spec2Isabelle
  imports Complex_Main
begin

section \<open>Streaming image-caption dataset: data model\<close>

text \<open>
  The development follows \<^verbatim>\<open>src/diffusion/datasets/image_caption.py\<close>: the class
  \<^verbatim>\<open>StreamingImageCaptionDataset\<close> (its \<^verbatim>\<open>__init__\<close> and \<^verbatim>\<open>__getitem__\<close>) and the function
  \<^verbatim>\<open>build_streaming_image_caption_dataloader\<close>.

  Conventions of the embedding.
  \<^item> Every exception is a value of type \<open>error\<close>; a function that may raise returns
    \<open>error + 'a\<close> with \<open>Inl\<close> for the exception.
  \<^item> Python floats (the drop probabilities, the draws of \<^verbatim>\<open>torch.rand\<close>, the value of
    \<^verbatim>\<open>drop_caption_mask\<close>) are real numbers; the code only compares them and stores the
    constants 0.0 and 1.0.
  \<^item> Strings are lists of 8-bit characters; \<^verbatim>\<open>str.lower\<close> acts on the letters A to Z.
  \<^item> The pixels of an image are not represented: an image is its mode and its size, a
    tensor image is its shape.
  \<^item> A tensor of token ids or of mask bits that the tokenizer returns with
    \<^verbatim>\<open>return_tensors='pt'\<close> has shape [1, L]; it is represented by its row of L integers,
    so \<^verbatim>\<open>squeeze\<close> on such a tensor is the identity on rows.
  \<^item> Libraries outside the file (the streaming base class, the tokenizers, PIL, the crop
    classes, torchvision, the data loader) are parameters, collected in the record \<open>ext\<close>.
  \<^item> The random sources are parameters too: \<open>torch_rand g n\<close> is the value of the
    \<open>n\<close>-th call of \<^verbatim>\<open>torch.rand(1)\<close> during one \<^verbatim>\<open>__getitem__\<close>, and \<open>randbelow g n\<close> is
    the index below \<open>n\<close> that Python's generator picks for \<^verbatim>\<open>random.sample(_, k=1)\<close> on a
    population of size \<open>n\<close>.
\<close>

datatype value_error =
    InvalidCaptionSelection string
  | InvalidCropType string
  | MismatchedLength nat nat
  | InvalidArgumentType
  | UnsupportedImage
  | SampleLargerThanPopulation

datatype error =
    ValueError value_error
  | KeyError string
  | IndexError
  | TypeError
  | RuntimeError
  | ExternalError string

datatype kwval = KInt int | KStr string | KBool bool

type_synonym kwargs = "string \<rightharpoonup> kwval"

record pil =
  mode :: string
  width :: nat
  height :: nat

datatype image = PILImage pil | TensorImage "nat list" | OtherImage

datatype tensor = T1 "int list" | T2 "int list list"

datatype pyval = VImage image | VTensor tensor | VFloat real

text \<open>A field of a raw record of the shard source.\<close>

datatype field = FBytes "nat list" | FImage pil | FStr string | FList "string list"

type_synonym raw_sample = "string \<rightharpoonup> field"

type_synonym out_sample = "string \<rightharpoonup> pyval"

text \<open>
  What a tokenizer call returns: \<open>input_ids\<close> and \<open>attention_mask\<close>, indexed by their
  leading axis. For the dual (SDXL) tokenizer these are the two sub-tokenizers' rows.
\<close>

record tok_out =
  input_ids :: "int list list"
  attention_mask :: "int list list"

record tokenizer =
  model_max_length :: nat
  tokenize :: "field \<Rightarrow> nat option \<Rightarrow> error + tok_out"

record stream =
  s_remote :: string
  s_local :: string

text \<open>
  The state of a \<^verbatim>\<open>StreamingImageCaptionDataset\<close>. \<open>streams\<close> is what the base class
  was given; the other fields are the attributes that \<^verbatim>\<open>__init__\<close> sets.
\<close>

record dataset =
  streams :: "stream list option"
  crop :: "(pil \<Rightarrow> pil \<times> int \<times> int) option"
  transform :: "(image \<Rightarrow> image) option"
  sdxl :: bool
  caption_drop_prob :: real
  microcond_drop_prob :: real
  caption_selection :: string
  image_key :: string
  caption_key :: string
  zero_dropped_captions :: bool
  tokenizer :: tokenizer

record ext =
  StreamingDataset_init ::
    "stream list option \<Rightarrow> kwval option \<Rightarrow> kwval option \<Rightarrow> kwargs \<Rightarrow> error option"
  AutoTokenizer_from_pretrained :: "string \<Rightarrow> error + tokenizer"
  SDXLTokenizer_init :: "string \<Rightarrow> error + tokenizer"
  Image_open :: "nat list \<Rightarrow> error + pil"
  LargestCenterSquare :: "int \<Rightarrow> pil \<Rightarrow> pil \<times> int \<times> int"
  RandomCropSquare :: "int \<Rightarrow> pil \<Rightarrow> pil \<times> int \<times> int"
  RandomCropAspectRatioTransorm :: "pil \<Rightarrow> pil \<times> int \<times> int"
  ToTensor :: "image \<Rightarrow> image"
  Normalize :: "image \<Rightarrow> image"
  DataLoader_init :: "int \<Rightarrow> kwargs \<Rightarrow> error option"

record rng =
  torch_rand :: "nat \<Rightarrow> real"
  randbelow :: "nat \<Rightarrow> nat"

section \<open>Strings and keyword dictionaries\<close>

definition lower_char :: "char \<Rightarrow> char" where
  "lower_char c =
     (if 65 \<le> (of_char c :: nat) \<and> (of_char c :: nat) \<le> 90
      then char_of ((of_char c :: nat) + 32) else c)"

definition str_lower :: "string \<Rightarrow> string" where
  "str_lower s = map lower_char s"

definition setdefault :: "kwargs \<Rightarrow> string \<Rightarrow> kwval \<Rightarrow> kwargs" where
  "setdefault kw k v = (case kw k of None \<Rightarrow> kw(k \<mapsto> v) | Some _ \<Rightarrow> kw)"

section \<open>\<^verbatim>\<open>StreamingImageCaptionDataset.__init__\<close>\<close>

record init_args =
  i_streams :: "stream list option"
  i_remote :: "kwval option"
  i_local :: "kwval option"
  i_tokenizer_name_or_path :: string
  i_caption_drop_prob :: real
  i_microcond_drop_prob :: real
  i_caption_selection :: string
  i_crop :: "(pil \<Rightarrow> pil \<times> int \<times> int) option"
  i_transform :: "(image \<Rightarrow> image) option"
  i_image_key :: string
  i_caption_key :: string
  i_sdxl :: bool
  i_zero_dropped_captions :: bool
  i_streaming_kwargs :: kwargs

text \<open>Lines 70 and 71: the defaults of the streaming arguments.\<close>

definition init_streaming_kwargs :: "kwargs \<Rightarrow> kwargs" where
  "init_streaming_kwargs kw =
     setdefault (setdefault kw ''shuffle_block_size'' (KInt 262144)) ''shuffle_algo'' (KStr ''py1s'')"

text \<open>Lines 93 to 96: the dual tokenizer in SDXL mode, a pretrained tokenizer otherwise.\<close>

definition load_tokenizer :: "ext \<Rightarrow> bool \<Rightarrow> string \<Rightarrow> error + tokenizer" where
  "load_tokenizer x is_sdxl tokenizer_name_or_path =
     (if is_sdxl then SDXLTokenizer_init x tokenizer_name_or_path
      else AutoTokenizer_from_pretrained x tokenizer_name_or_path)"

definition init :: "ext \<Rightarrow> init_args \<Rightarrow> error + dataset" where
  "init x a =
     (case StreamingDataset_init x (i_streams a) (i_remote a) (i_local a)
             (init_streaming_kwargs (i_streaming_kwargs a)) of
        Some e \<Rightarrow> Inl e
      | None \<Rightarrow>
          (let caption_selection = str_lower (i_caption_selection a)
           in if caption_selection \<notin> set [''first'', ''random'']
              then Inl (ValueError (InvalidCaptionSelection caption_selection))
              else
                (case load_tokenizer x (i_sdxl a) (i_tokenizer_name_or_path a) of
                   Inl e \<Rightarrow> Inl e
                 | Inr tok \<Rightarrow>
                     Inr \<lparr>streams = i_streams a,
                          crop = i_crop a,
                          transform = i_transform a,
                          sdxl = i_sdxl a,
                          caption_drop_prob = i_caption_drop_prob a,
                          microcond_drop_prob = i_microcond_drop_prob a,
                          caption_selection = caption_selection,
                          image_key = i_image_key a,
                          caption_key = i_caption_key a,
                          zero_dropped_captions = i_zero_dropped_captions a,
                          tokenizer = tok\<rparr>)))"

section \<open>\<^verbatim>\<open>StreamingImageCaptionDataset.__getitem__\<close>\<close>

subsection \<open>Image\<close>

text \<open>
  Lines 103 to 108: the image field is read (a missing key raises), opened from its bytes
  when it is not a decoded image already, and converted to RGB. The result's size is the
  original size.
\<close>

definition load_image :: "ext \<Rightarrow> dataset \<Rightarrow> raw_sample \<Rightarrow> error + pil" where
  "load_image x self sample =
     (case sample (image_key self) of
        None \<Rightarrow> Inl (KeyError (image_key self))
      | Some f \<Rightarrow>
          (case (case f of
                   FImage p \<Rightarrow> Inr p
                 | FBytes b \<Rightarrow> Image_open x b
                 | FStr s \<Rightarrow> Inl TypeError
                 | FList l \<Rightarrow> Inl TypeError) of
             Inl e \<Rightarrow> Inl e
           | Inr img \<Rightarrow> Inr (if mode img \<noteq> ''RGB'' then img\<lparr>mode := ''RGB''\<rparr> else img)))"

text \<open>Lines 111 to 116: the crop, then the transform; both are optional.\<close>

definition image_transforms :: "dataset \<Rightarrow> pil \<Rightarrow> image \<times> int \<times> int" where
  "image_transforms self img =
     (case (case crop self of Some c \<Rightarrow> c img | None \<Rightarrow> (img, 0, 0)) of
        (img1, crop_top, crop_left) \<Rightarrow>
          ((case transform self of Some t \<Rightarrow> t (PILImage img1) | None \<Rightarrow> PILImage img1),
           crop_top, crop_left))"

text \<open>
  Lines 122 to 127: the new width and height, \<open>(img_w, img_h)\<close>. A tensor's height and
  width are its last two dimensions; indexing a shape with fewer than two raises.
\<close>

definition image_size :: "image \<Rightarrow> error + nat \<times> nat" where
  "image_size img =
     (case img of
        TensorImage shape \<Rightarrow>
          (if length shape < 2 then Inl IndexError
           else Inr (shape ! (length shape - 1), shape ! (length shape - 2)))
      | PILImage p \<Rightarrow> Inr (width p, height p)
      | OtherImage \<Rightarrow> Inl (ValueError UnsupportedImage))"

subsection \<open>Microconditioning\<close>

definition times0 :: "int list \<Rightarrow> int list" where
  "times0 v = map (\<lambda>a. a * 0) v"

text \<open>
  Lines 129 to 140. The three vectors are built, then each is multiplied by 0 when its own
  draw of \<^verbatim>\<open>torch.rand(1)\<close> (the calls number 0, 1 and 2) is below the drop probability.
\<close>

definition microcond ::
  "dataset \<Rightarrow> rng \<Rightarrow> int \<times> int \<Rightarrow> nat \<times> nat \<Rightarrow> nat \<times> nat \<Rightarrow> out_sample \<Rightarrow> out_sample" where
  "microcond self g crop_tl orig new out =
     (let c = [fst crop_tl, snd crop_tl];
          orig_size = [int (fst orig), int (snd orig)];
          target = [int (fst new), int (snd new)];
          c' = (if torch_rand g 0 < microcond_drop_prob self then times0 c else c);
          orig_size' = (if torch_rand g 1 < microcond_drop_prob self then times0 orig_size
                        else orig_size);
          target' = (if torch_rand g 2 < microcond_drop_prob self then times0 target else target)
      in out(''cond_crops_coords_top_left'' \<mapsto> VTensor (T1 c'),
             ''cond_original_size'' \<mapsto> VTensor (T1 orig_size'),
             ''cond_target_size'' \<mapsto> VTensor (T1 target')))"

text \<open>
  Lines 117 to 140: the output dictionary after the image part, and the number of draws of
  \<^verbatim>\<open>torch.rand(1)\<close> made so far. In SDXL mode the size of the transformed image is read
  first, which raises when the image is neither a tensor nor a PIL image.
\<close>

definition image_outputs ::
  "dataset \<Rightarrow> rng \<Rightarrow> pil \<Rightarrow> image \<times> int \<times> int \<Rightarrow> error + out_sample \<times> nat" where
  "image_outputs self g img0 transformed =
     (case transformed of
        (img, crop_top, crop_left) \<Rightarrow>
          (if sdxl self
           then (case image_size img of
                   Inl e \<Rightarrow> Inl e
                 | Inr new \<Rightarrow>
                     Inr (microcond self g (crop_top, crop_left) (width img0, height img0) new
                            (Map.empty(''image'' \<mapsto> VImage img)), 3))
           else Inr (Map.empty(''image'' \<mapsto> VImage img), 0)))"

subsection \<open>Caption\<close>

text \<open>Line 152: \<^verbatim>\<open>caption[0]\<close> when the caption is a list and the policy is 'first'.\<close>

definition select_first :: "dataset \<Rightarrow> field \<Rightarrow> error + field" where
  "select_first self caption =
     (case caption of
        FList l \<Rightarrow>
          (if caption_selection self = ''first''
           then (case l of [] \<Rightarrow> Inl IndexError | c # _ \<Rightarrow> Inr (FStr c))
           else Inr caption)
      | _ \<Rightarrow> Inr caption)"

text \<open>
  Line 154: \<^verbatim>\<open>random.sample(caption, k=1)[0]\<close> when the caption is a list and the policy
  is 'random'. Sampling from an empty population raises \<^verbatim>\<open>ValueError\<close>; otherwise the
  element at the index drawn below the length is taken.
\<close>

definition select_random :: "dataset \<Rightarrow> (nat \<Rightarrow> nat) \<Rightarrow> field \<Rightarrow> error + field" where
  "select_random self rb caption =
     (case caption of
        FList l \<Rightarrow>
          (if caption_selection self = ''random''
           then (if l = [] then Inl (ValueError SampleLargerThanPopulation)
                 else Inr (FStr (l ! rb (length l))))
           else Inr caption)
      | _ \<Rightarrow> Inr caption)"

text \<open>
  Lines 143 to 155, for the draw \<open>u\<close> of \<^verbatim>\<open>torch.rand(1)\<close>: the caption that goes to the
  tokenizer, and the value stored under \<^verbatim>\<open>drop_caption_mask\<close>.
\<close>

definition caption_step ::
  "dataset \<Rightarrow> real \<Rightarrow> (nat \<Rightarrow> nat) \<Rightarrow> raw_sample \<Rightarrow> error + field \<times> real" where
  "caption_step self u rb sample =
     (if u < caption_drop_prob self
      then Inr (FStr '''', if zero_dropped_captions self then 0 else 1)
      else
        (case sample (caption_key self) of
           None \<Rightarrow> Inl (KeyError (caption_key self))
         | Some caption \<Rightarrow>
             (case select_first self caption of
                Inl e \<Rightarrow> Inl e
              | Inr c1 \<Rightarrow>
                  (case select_random self rb c1 of
                     Inl e \<Rightarrow> Inl e
                   | Inr c2 \<Rightarrow> Inr (c2, 1)))))"

subsection \<open>Tokenization\<close>

text \<open>\<^verbatim>\<open>torch.stack\<close> of a list of rows: the list is not empty and the rows agree in length.\<close>

definition stack :: "int list list \<Rightarrow> error + tensor" where
  "stack rows =
     (case rows of
        [] \<Rightarrow> Inl RuntimeError
      | r # rs \<Rightarrow>
          (if list_all (\<lambda>s. length s = length r) rs then Inr (T2 rows) else Inl RuntimeError))"

text \<open>\<^verbatim>\<open>squeeze\<close> of a tensor given by its rows: a single row loses the leading axis.\<close>

definition squeeze :: "int list list \<Rightarrow> tensor" where
  "squeeze rows = (case rows of [r] \<Rightarrow> T1 r | _ \<Rightarrow> T2 rows)"

text \<open>
  \<^verbatim>\<open>torch.logical_or\<close> of two rows: an entry is true when it is not zero; rows of
  different lengths broadcast when one of them has length 1, and raise otherwise.
\<close>

definition logical_or :: "int list \<Rightarrow> int list \<Rightarrow> error + bool list" where
  "logical_or a b =
     (if length a = length b then Inr (map2 (\<lambda>p q. p \<noteq> 0 \<or> q \<noteq> 0) a b)
      else if length a = 1 then Inr (map (\<lambda>q. a ! 0 \<noteq> 0 \<or> q \<noteq> 0) b)
      else if length b = 1 then Inr (map (\<lambda>p. p \<noteq> 0 \<or> b ! 0 \<noteq> 0) a)
      else Inl RuntimeError)"

text \<open>\<^verbatim>\<open>.to(dtype)\<close> from booleans back to the integer type of the masks.\<close>

definition to_int :: "bool list \<Rightarrow> int list" where
  "to_int bs = map (\<lambda>b. if b then 1 else 0) bs"

text \<open>Lines 157 to 171: the pair \<open>(tokenized_caption, attention_mask)\<close>.\<close>

definition tokenize_caption :: "dataset \<Rightarrow> field \<Rightarrow> error + tensor \<times> tensor" where
  "tokenize_caption self caption =
     (let max_length = (if sdxl self then None else Some (model_max_length (tokenizer self)))
      in case tokenize (tokenizer self) caption max_length of
           Inl e \<Rightarrow> Inl e
         | Inr tokenizer_out \<Rightarrow>
             (if sdxl self
              then
                (case stack (input_ids tokenizer_out) of
                   Inl e \<Rightarrow> Inl e
                 | Inr tokenized_caption \<Rightarrow>
                     (let attention_masks = attention_mask tokenizer_out
                      in if length attention_masks < 2 then Inl IndexError
                         else
                           (case logical_or (attention_masks ! 0) (attention_masks ! 1) of
                              Inl e \<Rightarrow> Inl e
                            | Inr m \<Rightarrow> Inr (tokenized_caption, T2 [to_int m]))))
              else Inr (squeeze (input_ids tokenizer_out), T2 (attention_mask tokenizer_out))))"

subsection \<open>The whole of \<^verbatim>\<open>__getitem__\<close>\<close>

text \<open>
  \<open>sample\<close> is the raw record that the base class returns for the index. In SDXL mode
  the microconditioning consumes the draws 0, 1 and 2, so that the caption's draw is
  number 3; otherwise it is number 0.
\<close>

definition getitem :: "ext \<Rightarrow> dataset \<Rightarrow> rng \<Rightarrow> raw_sample \<Rightarrow> error + out_sample" where
  "getitem x self g sample =
     (case load_image x self sample of
        Inl e \<Rightarrow> Inl e
      | Inr img0 \<Rightarrow>
          (case image_outputs self g img0 (image_transforms self img0) of
             Inl e \<Rightarrow> Inl e
           | Inr (out, n) \<Rightarrow>
               (case caption_step self (torch_rand g n) (randbelow g) sample of
                  Inl e \<Rightarrow> Inl e
                | Inr (caption, m) \<Rightarrow>
                    (case tokenize_caption self caption of
                       Inl e \<Rightarrow> Inl e
                     | Inr (tokenized_caption, attn) \<Rightarrow>
                         Inr (out(''drop_caption_mask'' \<mapsto> VFloat m,
                                  ''captions'' \<mapsto> VTensor tokenized_caption,
                                  ''attention_mask'' \<mapsto> VTensor attn))))))"

section \<open>\<^verbatim>\<open>build_streaming_image_caption_dataloader\<close>\<close>

text \<open>
  An argument for \<^verbatim>\<open>remote\<close> or \<^verbatim>\<open>local\<close>: a string, a list of strings, or \<^verbatim>\<open>None\<close>
  (a value that is neither a string nor a sequence).
\<close>

datatype locarg = LStr string | LList "string list" | LNone

definition isinstance_str :: "locarg \<Rightarrow> bool" where
  "isinstance_str v = (case v of LStr _ \<Rightarrow> True | LList _ \<Rightarrow> False | LNone \<Rightarrow> False)"

text \<open>A Python string is a \<^verbatim>\<open>Sequence\<close> as well.\<close>

definition isinstance_Sequence :: "locarg \<Rightarrow> bool" where
  "isinstance_Sequence v = (case v of LStr _ \<Rightarrow> True | LList _ \<Rightarrow> True | LNone \<Rightarrow> False)"

definition len :: "locarg \<Rightarrow> nat" where
  "len v = (case v of LStr s \<Rightarrow> length s | LList l \<Rightarrow> length l | LNone \<Rightarrow> 0)"

text \<open>Iterating a string yields its characters, each a string of length one.\<close>

definition iterate :: "locarg \<Rightarrow> error + string list" where
  "iterate v =
     (case v of
        LStr s \<Rightarrow> Inr (map (\<lambda>c. [c]) s)
      | LList l \<Rightarrow> Inr l
      | LNone \<Rightarrow> Inl TypeError)"

text \<open>
  Lines 228 to 236. The result is the pair \<open>(remote, local)\<close> after the statement, and
  with it the exception object that the statement builds, if any. No branch has a
  \<^verbatim>\<open>raise\<close>: the object is dropped and the function goes on.
\<close>

definition check_remote_local :: "locarg \<Rightarrow> locarg \<Rightarrow> (locarg \<times> locarg) \<times> error option" where
  "check_remote_local remote local =
     (if isinstance_str remote \<and> isinstance_str local
      then ((LList (case remote of LStr r \<Rightarrow> [r] | LList l \<Rightarrow> l | LNone \<Rightarrow> []),
             LList (case local of LStr l \<Rightarrow> [l] | LList l \<Rightarrow> l | LNone \<Rightarrow> [])), None)
      else if isinstance_Sequence remote \<and> isinstance_Sequence local
      then (if len remote \<noteq> len local
            then ((remote, local), Some (ValueError (MismatchedLength (len remote) (len local))))
            else ((remote, local), None))
      else ((remote, local), Some (ValueError InvalidArgumentType)))"

text \<open>Lines 239 to 241: one stream for each pair of \<^verbatim>\<open>zip(remote, local)\<close>.\<close>

definition make_streams :: "locarg \<Rightarrow> locarg \<Rightarrow> error + stream list" where
  "make_streams remote local =
     (case iterate remote of
        Inl e \<Rightarrow> Inl e
      | Inr rs \<Rightarrow>
          (case iterate local of
             Inl e \<Rightarrow> Inl e
           | Inr ls \<Rightarrow> Inr (map (\<lambda>(r, l). \<lparr>s_remote = r, s_local = l\<rparr>) (zip rs ls))))"

text \<open>Lines 216 to 219.\<close>

definition check_crop_type :: "string option \<Rightarrow> error + string option" where
  "check_crop_type crop_type =
     (case crop_type of
        None \<Rightarrow> Inr None
      | Some c \<Rightarrow>
          (if str_lower c \<notin> set [''square'', ''random'', ''aspect_ratio'']
           then Inl (ValueError (InvalidCropType (str_lower c)))
           else Inr (Some (str_lower c))))"

text \<open>Lines 249 to 256.\<close>

definition select_crop :: "ext \<Rightarrow> int \<Rightarrow> string option \<Rightarrow> (pil \<Rightarrow> pil \<times> int \<times> int) option" where
  "select_crop x resize_size crop_type =
     (if crop_type = Some ''square'' then Some (LargestCenterSquare x resize_size)
      else if crop_type = Some ''random'' then Some (RandomCropSquare x resize_size)
      else if crop_type = Some ''aspect_ratio'' then Some (RandomCropAspectRatioTransorm x)
      else None)"

text \<open>\<^verbatim>\<open>transforms.Compose\<close>: the transforms are applied in the order of the list.\<close>

definition Compose :: "(image \<Rightarrow> image) list \<Rightarrow> image \<Rightarrow> image" where
  "Compose ts img = foldl (\<lambda>i t. t i) img ts"

record build_args =
  b_remote :: locarg
  b_local :: locarg
  b_batch_size :: int
  b_tokenizer_name_or_path :: string
  b_caption_drop_prob :: real
  b_microcond_drop_prob :: real
  b_resize_size :: int
  b_caption_selection :: string
  b_transform :: "(image \<Rightarrow> image) list option"
  b_image_key :: string
  b_caption_key :: string
  b_crop_type :: "string option"
  b_zero_dropped_captions :: bool
  b_streaming_kwargs :: "kwargs option"
  b_dataloader_kwargs :: "kwargs option"

record dataloader =
  dl_dataset :: dataset
  dl_batch_size :: int
  dl_kwargs :: kwargs

text \<open>
  The keywords that the call of \<^verbatim>\<open>StreamingImageCaptionDataset\<close> (lines 263 to 277) passes
  by name. A key of \<^verbatim>\<open>streaming_kwargs\<close> that repeats one of them makes the call raise
  \<^verbatim>\<open>TypeError\<close> (a keyword given twice); so does a key of \<^verbatim>\<open>dataloader_kwargs\<close> that
  repeats a keyword of the \<^verbatim>\<open>DataLoader\<close> call.
\<close>

definition dataset_keywords :: "string list" where
  "dataset_keywords =
     [''streams'', ''tokenizer_name_or_path'', ''caption_drop_prob'', ''microcond_drop_prob'',
      ''caption_selection'', ''crop'', ''transform'', ''image_key'', ''caption_key'',
      ''batch_size'', ''sdxl'', ''zero_dropped_captions'']"

definition dataloader_keywords :: "string list" where
  "dataloader_keywords = [''dataset'', ''batch_size'', ''sampler'']"

definition repeats :: "kwargs \<Rightarrow> string list \<Rightarrow> bool" where
  "repeats kw ks = list_ex (\<lambda>k. kw k \<noteq> None) ks"

text \<open>
  The keys \<^verbatim>\<open>remote\<close> and \<^verbatim>\<open>local\<close> of \<^verbatim>\<open>streaming_kwargs\<close> bind to the parameters of
  \<^verbatim>\<open>__init__\<close> of these names; the other keys, with \<^verbatim>\<open>batch_size\<close>, are its
  \<^verbatim>\<open>**streaming_kwargs\<close>.
\<close>

definition build_streaming_image_caption_dataloader :: "ext \<Rightarrow> build_args \<Rightarrow> error + dataloader" where
  "build_streaming_image_caption_dataloader x a =
     (case check_crop_type (b_crop_type a) of
        Inl e \<Rightarrow> Inl e
      | Inr crop_type \<Rightarrow>
          (let streaming_kwargs = (case b_streaming_kwargs a of None \<Rightarrow> Map.empty | Some k \<Rightarrow> k);
               dataloader_kwargs = (case b_dataloader_kwargs a of None \<Rightarrow> Map.empty | Some k \<Rightarrow> k);
               checked = fst (check_remote_local (b_remote a) (b_local a))
           in case make_streams (fst checked) (snd checked) of
                Inl e \<Rightarrow> Inl e
              | Inr stream_list \<Rightarrow>
                  (let sdxl = (b_tokenizer_name_or_path a = ''stabilityai/stable-diffusion-xl-base-1.0'');
                       crop = select_crop x (b_resize_size a) crop_type;
                       transform =
                         Compose (case b_transform a of
                                    None \<Rightarrow> [ToTensor x, Normalize x]
                                  | Some ts \<Rightarrow> ts)
                   in if repeats streaming_kwargs dataset_keywords then Inl TypeError
                      else
                        (case init x
                                \<lparr>i_streams = Some stream_list,
                                 i_remote = streaming_kwargs ''remote'',
                                 i_local = streaming_kwargs ''local'',
                                 i_tokenizer_name_or_path = b_tokenizer_name_or_path a,
                                 i_caption_drop_prob = b_caption_drop_prob a,
                                 i_microcond_drop_prob = b_microcond_drop_prob a,
                                 i_caption_selection = b_caption_selection a,
                                 i_crop = crop,
                                 i_transform = Some transform,
                                 i_image_key = b_image_key a,
                                 i_caption_key = b_caption_key a,
                                 i_sdxl = sdxl,
                                 i_zero_dropped_captions = b_zero_dropped_captions a,
                                 i_streaming_kwargs =
                                   (streaming_kwargs(''remote'' := None, ''local'' := None))
                                     (''batch_size'' \<mapsto> KInt (b_batch_size a))\<rparr> of
                           Inl e \<Rightarrow> Inl e
                         | Inr dataset \<Rightarrow>
                             (if repeats dataloader_kwargs dataloader_keywords then Inl TypeError
                              else
                                (case DataLoader_init x (b_batch_size a) dataloader_kwargs of
                                   Some e \<Rightarrow> Inl e
                                 | None \<Rightarrow>
                                     Inr \<lparr>dl_dataset = dataset,
                                          dl_batch_size = b_batch_size a,
                                          dl_kwargs = dataloader_kwargs\<rparr>))))))"

section \<open>Concrete collaborators and inputs\<close>

text \<open>
  A small instance of every parameter, on which the definitions above can be run: a
  tokenizer whose first id is the length of the caption, a dual tokenizer with two rows,
  collaborators that always succeed, and a record with a 256 by 256 image and two
  candidate captions.
\<close>

definition ex_tokenizer :: tokenizer where
  "ex_tokenizer =
     \<lparr>model_max_length = 77,
      tokenize = (\<lambda>c n. case c of
                     FStr s \<Rightarrow> Inr \<lparr>input_ids = [[int (length s), 0]], attention_mask = [[1, 0]]\<rparr>
                   | FBytes b \<Rightarrow> Inl TypeError
                   | FImage p \<Rightarrow> Inl TypeError
                   | FList l \<Rightarrow> Inl TypeError)\<rparr>"

definition ex_sdxl_tokenizer :: tokenizer where
  "ex_sdxl_tokenizer =
     \<lparr>model_max_length = 77,
      tokenize = (\<lambda>c n. case c of
                     FStr s \<Rightarrow>
                       Inr \<lparr>input_ids = [[int (length s), 7, 0], [int (length s), 0, 0]],
                            attention_mask = [[1, 1, 0], [1, 0, 0]]\<rparr>
                   | FBytes b \<Rightarrow> Inl TypeError
                   | FImage p \<Rightarrow> Inl TypeError
                   | FList l \<Rightarrow> Inl TypeError)\<rparr>"

definition ex_crop :: "int \<Rightarrow> pil \<Rightarrow> pil \<times> int \<times> int" where
  "ex_crop n p = (p\<lparr>width := nat n, height := nat n\<rparr>, 0, 0)"

definition ex_to_tensor :: "image \<Rightarrow> image" where
  "ex_to_tensor img =
     (case img of
        PILImage p \<Rightarrow> TensorImage [3, height p, width p]
      | TensorImage sh \<Rightarrow> TensorImage sh
      | OtherImage \<Rightarrow> OtherImage)"

definition ex_ext :: ext where
  "ex_ext =
     \<lparr>StreamingDataset_init = (\<lambda>s r l k. None),
      AutoTokenizer_from_pretrained = (\<lambda>n. Inr ex_tokenizer),
      SDXLTokenizer_init = (\<lambda>n. Inr ex_sdxl_tokenizer),
      Image_open = (\<lambda>b. if b = [] then Inl (ExternalError ''cannot identify image file'')
                         else Inr \<lparr>mode = ''RGB'', width = 256, height = 256\<rparr>),
      LargestCenterSquare = ex_crop,
      RandomCropSquare = ex_crop,
      RandomCropAspectRatioTransorm = ex_crop 1024,
      ToTensor = ex_to_tensor,
      Normalize = (\<lambda>img. img),
      DataLoader_init = (\<lambda>b k. None)\<rparr>"

definition ex_self :: dataset where
  "ex_self =
     \<lparr>streams = None, crop = None, transform = None, sdxl = False,
      caption_drop_prob = 0, microcond_drop_prob = 0, caption_selection = ''first'',
      image_key = ''image'', caption_key = ''caption'', zero_dropped_captions = False,
      tokenizer = ex_tokenizer\<rparr>"

definition ex_sdxl_self :: dataset where
  "ex_sdxl_self = ex_self\<lparr>sdxl := True, tokenizer := ex_sdxl_tokenizer\<rparr>"

definition ex_rng :: rng where
  "ex_rng = \<lparr>torch_rand = (\<lambda>n. 1 / 2), randbelow = (\<lambda>n. n - 1)\<rparr>"

text \<open>Draws that differ from one call to the next: the second is above one half.\<close>

definition ex_rng_mixed :: rng where
  "ex_rng_mixed = \<lparr>torch_rand = (\<lambda>n. if n = 1 then 3 / 4 else 1 / 4), randbelow = (\<lambda>n. 0)\<rparr>"

definition ex_image :: pil where
  "ex_image = \<lparr>mode = ''RGB'', width = 256, height = 256\<rparr>"

definition ex_sample :: raw_sample where
  "ex_sample = [''image'' \<mapsto> FImage ex_image, ''caption'' \<mapsto> FList [''a dog'', ''a puppy'']]"

definition ex_args :: build_args where
  "ex_args =
     \<lparr>b_remote = LList [''r1'', ''r2''],
      b_local = LList [''l1'', ''l2'', ''l3''],
      b_batch_size = 8,
      b_tokenizer_name_or_path = ''stabilityai/stable-diffusion-2-base'',
      b_caption_drop_prob = 0,
      b_microcond_drop_prob = 0,
      b_resize_size = 256,
      b_caption_selection = ''first'',
      b_transform = None,
      b_image_key = ''image'',
      b_caption_key = ''caption'',
      b_crop_type = Some ''square'',
      b_zero_dropped_captions = True,
      b_streaming_kwargs = None,
      b_dataloader_kwargs = None\<rparr>"

definition ex_init_args :: "string \<Rightarrow> init_args" where
  "ex_init_args selection =
     \<lparr>i_streams = None,
      i_remote = Some (KStr ''s3://bucket/data''),
      i_local = Some (KStr ''/tmp/data''),
      i_tokenizer_name_or_path = ''stabilityai/stable-diffusion-2-base'',
      i_caption_drop_prob = 0,
      i_microcond_drop_prob = 0,
      i_caption_selection = selection,
      i_crop = None,
      i_transform = None,
      i_image_key = ''image'',
      i_caption_key = ''caption'',
      i_sdxl = False,
      i_zero_dropped_captions = False,
      i_streaming_kwargs = Map.empty\<rparr>"

text \<open>What is read off a result: the streams and the mode of the built data loader.\<close>

definition built_streams :: "error + dataloader \<Rightarrow> error + stream list option" where
  "built_streams r = (case r of Inl e \<Rightarrow> Inl e | Inr d \<Rightarrow> Inr (streams (dl_dataset d)))"

definition lookup :: "error + out_sample \<Rightarrow> string \<Rightarrow> pyval option" where
  "lookup r k = (case r of Inl e \<Rightarrow> None | Inr out \<Rightarrow> out k)"

section \<open>The contracts of the random sources\<close>

text \<open>\<^verbatim>\<open>torch.rand\<close> draws from the interval [0, 1): 0 may occur, 1 may not.\<close>

definition rand_in_unit_interval :: "rng \<Rightarrow> bool" where
  "rand_in_unit_interval g = (\<forall>n. 0 \<le> torch_rand g n \<and> torch_rand g n < 1)"

text \<open>The index that \<^verbatim>\<open>random.sample\<close> draws for a population of size \<open>n\<close> is below \<open>n\<close>.\<close>

definition randbelow_in_range :: "rng \<Rightarrow> bool" where
  "randbelow_in_range g = (\<forall>n. 0 < n \<longrightarrow> randbelow g n < n)"

section \<open>Evaluation of the definitions\<close>

lemmas ex_defs = ex_tokenizer_def ex_sdxl_tokenizer_def ex_crop_def ex_to_tensor_def ex_ext_def
  ex_self_def ex_sdxl_self_def ex_rng_def ex_image_def ex_sample_def

lemmas step_defs = getitem_def load_image_def image_transforms_def image_outputs_def
  image_size_def microcond_def times0_def caption_step_def select_first_def select_random_def
  tokenize_caption_def stack_def squeeze_def logical_or_def to_int_def

lemma ex_getitem:
  "getitem ex_ext ex_self ex_rng ex_sample =
     Inr [''image'' \<mapsto> VImage (PILImage ex_image), ''drop_caption_mask'' \<mapsto> VFloat 1,
          ''captions'' \<mapsto> VTensor (T1 [5, 0]), ''attention_mask'' \<mapsto> VTensor (T2 [[1, 0]])]"
  by (simp add: step_defs ex_defs)

lemma ex_getitem_sdxl:
  "getitem ex_ext ex_sdxl_self ex_rng ex_sample =
     Inr [''image'' \<mapsto> VImage (PILImage ex_image),
          ''cond_crops_coords_top_left'' \<mapsto> VTensor (T1 [0, 0]),
          ''cond_original_size'' \<mapsto> VTensor (T1 [256, 256]),
          ''cond_target_size'' \<mapsto> VTensor (T1 [256, 256]),
          ''drop_caption_mask'' \<mapsto> VFloat 1,
          ''captions'' \<mapsto> VTensor (T2 [[5, 7, 0], [5, 0, 0]]),
          ''attention_mask'' \<mapsto> VTensor (T2 [[1, 1, 0]])]"
  by (simp add: step_defs ex_defs)

section \<open>What a produced sample is made of\<close>

text \<open>
  A call of \<^verbatim>\<open>__getitem__\<close> that returns went through each step without an exception, and
  its result is the dictionary of the image part with three more keys.
\<close>

lemma getitem_InrE:
  assumes "getitem x self g sample = Inr out"
  obtains img0 base n caption m tc attn where
    "load_image x self sample = Inr img0"
    "image_outputs self g img0 (image_transforms self img0) = Inr (base, n)"
    "caption_step self (torch_rand g n) (randbelow g) sample = Inr (caption, m)"
    "tokenize_caption self caption = Inr (tc, attn)"
    "out = base(''drop_caption_mask'' \<mapsto> VFloat m, ''captions'' \<mapsto> VTensor tc,
                ''attention_mask'' \<mapsto> VTensor attn)"
  using assms unfolding getitem_def
  by (auto split: sum.splits prod.splits)

lemma caption_step_mask:
  "caption_step self u rb sample = Inr (c, m) \<Longrightarrow> m = 0 \<or> m = 1"
  by (auto simp: caption_step_def split: if_splits option.splits sum.splits)

section \<open>The caption-drop mask\<close>

text \<open>
  Claim C10. Whatever the record, the configuration, the mode and the draws, a sample that
  \<^verbatim>\<open>__getitem__\<close> produces has the key \<^verbatim>\<open>drop_caption_mask\<close>, and its value is the
  float 0.0 or the float 1.0.
\<close>

theorem drop_caption_mask_present:
  assumes "getitem x self g sample = Inr out"
  shows "out ''drop_caption_mask'' = Some (VFloat 0) \<or> out ''drop_caption_mask'' = Some (VFloat 1)"
proof -
  from assms obtain base n caption m tc attn where
    c: "caption_step self (torch_rand g n) (randbelow g) sample = Inr (caption, m)" and
    o: "out = base(''drop_caption_mask'' \<mapsto> VFloat m, ''captions'' \<mapsto> VTensor tc,
                ''attention_mask'' \<mapsto> VTensor attn)"
    by (rule getitem_InrE)
  from o have "out ''drop_caption_mask'' = Some (VFloat m)" by simp
  with caption_step_mask [OF c] show ?thesis by auto
qed

theorem drop_caption_mask_present_witness:
  "getitem ex_ext ex_self ex_rng ex_sample =
     Inr [''image'' \<mapsto> VImage (PILImage ex_image), ''drop_caption_mask'' \<mapsto> VFloat 1,
          ''captions'' \<mapsto> VTensor (T1 [5, 0]), ''attention_mask'' \<mapsto> VTensor (T2 [[1, 0]])] \<and>
   lookup (getitem ex_ext ex_self ex_rng ex_sample) ''drop_caption_mask'' = Some (VFloat 1)"
  using drop_caption_mask_present [OF ex_getitem] ex_getitem
  by (simp add: lookup_def)

lemma getitem_lookup:
  assumes "out = base(''drop_caption_mask'' \<mapsto> VFloat m, ''captions'' \<mapsto> VTensor tc,
                ''attention_mask'' \<mapsto> VTensor attn)"
  shows "out ''drop_caption_mask'' = Some (VFloat m)"
    and "out ''captions'' = Some (VTensor tc)"
    and "out ''attention_mask'' = Some (VTensor attn)"
    and "out ''cond_crops_coords_top_left'' = base ''cond_crops_coords_top_left''"
    and "out ''cond_original_size'' = base ''cond_original_size''"
    and "out ''cond_target_size'' = base ''cond_target_size''"
    and "out ''image'' = base ''image''"
  using assms by simp_all

lemma ex_rng_unit: "rand_in_unit_interval ex_rng"
  by (simp add: rand_in_unit_interval_def ex_rng_def)

lemma ex_rng_range: "randbelow_in_range ex_rng"
  by (simp add: randbelow_in_range_def ex_rng_def)

section \<open>Caption dropout\<close>

lemma caption_step_dropped:
  assumes "caption_drop_prob self = 1" and "u < 1"
  shows "caption_step self u rb sample =
           Inr (FStr '''', if zero_dropped_captions self then 0 else 1)"
  using assms by (simp add: caption_step_def)

text \<open>
  Claim C3. With a caption-drop probability of 1.0 and draws in [0, 1), the caption part
  yields, for every record, the empty string as the caption for the tokenizer, with the mask
  0.0 when \<^verbatim>\<open>zero_dropped_captions\<close> is set and 1.0 otherwise; and every produced sample
  stores that mask under \<^verbatim>\<open>drop_caption_mask\<close> and, under \<^verbatim>\<open>captions\<close> and
  \<^verbatim>\<open>attention_mask\<close>, the tokenization of the empty string.
\<close>

theorem caption_dropped_at_probability_one:
  assumes p: "caption_drop_prob self = 1" and g: "rand_in_unit_interval g"
  shows "caption_step self (torch_rand g n) (randbelow g) sample =
           Inr (FStr '''', if zero_dropped_captions self then 0 else 1) \<and>
         (getitem x self g sample = Inr out \<longrightarrow>
            out ''drop_caption_mask'' = Some (VFloat (if zero_dropped_captions self then 0 else 1)) \<and>
            (\<exists>tc attn. tokenize_caption self (FStr '''') = Inr (tc, attn) \<and>
               out ''captions'' = Some (VTensor tc) \<and>
               out ''attention_mask'' = Some (VTensor attn)))"
proof -
  have draw: "torch_rand g k < 1" for k
    using g by (simp add: rand_in_unit_interval_def)
  have step: "caption_step self (torch_rand g k) (randbelow g) sample =
      Inr (FStr '''', if zero_dropped_captions self then 0 else 1)" for k
    by (rule caption_step_dropped [OF p draw])
  have "out ''drop_caption_mask'' = Some (VFloat (if zero_dropped_captions self then 0 else 1)) \<and>
        (\<exists>tc attn. tokenize_caption self (FStr '''') = Inr (tc, attn) \<and>
           out ''captions'' = Some (VTensor tc) \<and> out ''attention_mask'' = Some (VTensor attn))"
    if r: "getitem x self g sample = Inr out"
  proof -
    from r obtain base k caption m tc attn where
      c: "caption_step self (torch_rand g k) (randbelow g) sample = Inr (caption, m)" and
      t: "tokenize_caption self caption = Inr (tc, attn)" and
      o: "out = base(''drop_caption_mask'' \<mapsto> VFloat m, ''captions'' \<mapsto> VTensor tc,
                  ''attention_mask'' \<mapsto> VTensor attn)"
      by (rule getitem_InrE)
    from c step [of k] have cm: "caption = FStr ''''" "m = (if zero_dropped_captions self then 0 else 1)"
      by simp_all
    from getitem_lookup [OF o] t cm show ?thesis by auto
  qed
  with step show ?thesis by blast
qed

lemma ex_getitem_dropped:
  "getitem ex_ext (ex_self\<lparr>caption_drop_prob := 1, zero_dropped_captions := True\<rparr>) ex_rng ex_sample =
     Inr [''image'' \<mapsto> VImage (PILImage ex_image), ''drop_caption_mask'' \<mapsto> VFloat 0,
          ''captions'' \<mapsto> VTensor (T1 [0, 0]), ''attention_mask'' \<mapsto> VTensor (T2 [[1, 0]])]"
  by (simp add: step_defs ex_defs)

theorem caption_dropped_at_probability_one_witness:
  "caption_drop_prob (ex_self\<lparr>caption_drop_prob := 1, zero_dropped_captions := True\<rparr>) = 1 \<and>
   rand_in_unit_interval ex_rng \<and>
   getitem ex_ext (ex_self\<lparr>caption_drop_prob := 1, zero_dropped_captions := True\<rparr>) ex_rng ex_sample =
     Inr [''image'' \<mapsto> VImage (PILImage ex_image), ''drop_caption_mask'' \<mapsto> VFloat 0,
          ''captions'' \<mapsto> VTensor (T1 [0, 0]), ''attention_mask'' \<mapsto> VTensor (T2 [[1, 0]])] \<and>
   caption_step (ex_self\<lparr>caption_drop_prob := 1, zero_dropped_captions := True\<rparr>)
       (torch_rand ex_rng 0) (randbelow ex_rng) ex_sample = Inr (FStr '''', 0) \<and>
   lookup (getitem ex_ext (ex_self\<lparr>caption_drop_prob := 1, zero_dropped_captions := True\<rparr>)
             ex_rng ex_sample) ''drop_caption_mask'' = Some (VFloat 0)"
  using caption_dropped_at_probability_one
          [of "ex_self\<lparr>caption_drop_prob := 1, zero_dropped_captions := True\<rparr>" ex_rng 0 ex_sample
              ex_ext, OF _ ex_rng_unit]
        ex_getitem_dropped ex_rng_unit
  by (simp add: lookup_def ex_self_def)

lemma count_positions: "card {j. j < length l \<and> l ! j = s} = count_list l s"
proof -
  have "count_list l s = length (filter ((=) s) l)"
    by (simp add: count_list_eq_length_filter)
  also have "\<dots> = card {j. j < length l \<and> s = l ! j}"
    by (rule length_filter_conv_card)
  also have "{j. j < length l \<and> s = l ! j} = {j. j < length l \<and> l ! j = s}" by auto
  finally show ?thesis by simp
qed

lemma select_random_positions:
  assumes "caption_selection self = ''random''"
  shows "{j. j < length l \<and> select_random self (\<lambda>n. j) (FList l) = Inr (FStr s)} =
         {j. j < length l \<and> l ! j = s}"
  using assms by (auto simp: select_random_def)

lemma caption_step_kept:
  assumes "caption_drop_prob self = 0" and "0 \<le> u"
    and "caption_step self u rb sample = Inr (chosen, m)"
  shows "m = 1 \<and>
    (\<exists>c. sample (caption_key self) = Some c \<and>
       (\<forall>s. c = FStr s \<longrightarrow> chosen = FStr s) \<and>
       (\<forall>l. c = FList l \<and> caption_selection self = ''first'' \<longrightarrow> l \<noteq> [] \<and> chosen = FStr (l ! 0)) \<and>
       (\<forall>l. c = FList l \<and> caption_selection self = ''random'' \<longrightarrow>
            l \<noteq> [] \<and> chosen = FStr (l ! rb (length l))))"
  using assms
  by (auto simp: caption_step_def select_first_def select_random_def
      split: if_splits option.splits sum.splits field.splits list.splits)

text \<open>
  Claim C4. With a caption-drop probability of 0.0 and draws in [0, 1), every produced
  sample has \<^verbatim>\<open>drop_caption_mask\<close> equal to 1.0, and what is tokenized is the selected
  source caption: the caption field itself when it is a string, its element 0 under the
  policy 'first', and its element at the drawn index under the policy 'random'. The draw
  is uniform over the candidates: of the \<open>length l\<close> equally likely indices, as many select
  a string \<open>s\<close> as \<open>s\<close> has occurrences in \<open>l\<close>.
\<close>

theorem caption_kept_at_probability_zero:
  assumes p: "caption_drop_prob self = 0" and g: "rand_in_unit_interval g"
    and b: "randbelow_in_range g"
    and r: "getitem x self g sample = Inr out"
  shows "out ''drop_caption_mask'' = Some (VFloat 1) \<and>
    (\<exists>c chosen tc attn.
       sample (caption_key self) = Some c \<and>
       tokenize_caption self chosen = Inr (tc, attn) \<and>
       out ''captions'' = Some (VTensor tc) \<and>
       out ''attention_mask'' = Some (VTensor attn) \<and>
       (\<forall>s. c = FStr s \<longrightarrow> chosen = FStr s) \<and>
       (\<forall>l. c = FList l \<and> caption_selection self = ''first'' \<longrightarrow> l \<noteq> [] \<and> chosen = FStr (l ! 0)) \<and>
       (\<forall>l. c = FList l \<and> caption_selection self = ''random'' \<longrightarrow>
            l \<noteq> [] \<and> randbelow g (length l) < length l \<and>
            chosen = FStr (l ! randbelow g (length l)))) \<and>
    (\<forall>l s. caption_selection self = ''random'' \<longrightarrow>
       card {j. j < length l \<and> select_random self (\<lambda>n. j) (FList l) = Inr (FStr s)} =
       count_list l s)"
proof -
  from r obtain base k chosen m tc attn where
    c: "caption_step self (torch_rand g k) (randbelow g) sample = Inr (chosen, m)" and
    t: "tokenize_caption self chosen = Inr (tc, attn)" and
    o: "out = base(''drop_caption_mask'' \<mapsto> VFloat m, ''captions'' \<mapsto> VTensor tc,
                ''attention_mask'' \<mapsto> VTensor attn)"
    by (rule getitem_InrE)
  have draw: "0 \<le> torch_rand g k"
    using g by (simp add: rand_in_unit_interval_def)
  have idx: "randbelow g (length l) < length l" if "l \<noteq> []" for l :: "string list"
    using b that by (simp add: randbelow_in_range_def)
  from caption_step_kept [OF p draw c] obtain c0 where
    m: "m = 1" and c0: "sample (caption_key self) = Some c0" and
    s1: "\<forall>s. c0 = FStr s \<longrightarrow> chosen = FStr s" and
    s2: "\<forall>l. c0 = FList l \<and> caption_selection self = ''first'' \<longrightarrow> l \<noteq> [] \<and> chosen = FStr (l ! 0)" and
    s3: "\<forall>l. c0 = FList l \<and> caption_selection self = ''random'' \<longrightarrow>
            l \<noteq> [] \<and> chosen = FStr (l ! randbelow g (length l))"
    by blast
  from s3 idx have s3': "\<forall>l. c0 = FList l \<and> caption_selection self = ''random'' \<longrightarrow>
            l \<noteq> [] \<and> randbelow g (length l) < length l \<and>
            chosen = FStr (l ! randbelow g (length l))"
    by blast
  have mask: "out ''drop_caption_mask'' = Some (VFloat 1)"
    using getitem_lookup(1) [OF o] m by simp
  have sel: "\<exists>c chosen tc attn.
       sample (caption_key self) = Some c \<and>
       tokenize_caption self chosen = Inr (tc, attn) \<and>
       out ''captions'' = Some (VTensor tc) \<and>
       out ''attention_mask'' = Some (VTensor attn) \<and>
       (\<forall>s. c = FStr s \<longrightarrow> chosen = FStr s) \<and>
       (\<forall>l. c = FList l \<and> caption_selection self = ''first'' \<longrightarrow> l \<noteq> [] \<and> chosen = FStr (l ! 0)) \<and>
       (\<forall>l. c = FList l \<and> caption_selection self = ''random'' \<longrightarrow>
            l \<noteq> [] \<and> randbelow g (length l) < length l \<and>
            chosen = FStr (l ! randbelow g (length l)))"
    using c0 t getitem_lookup(2,3) [OF o] s1 s2 s3' by blast
  have uni: "\<forall>l s. caption_selection self = ''random'' \<longrightarrow>
       card {j. j < length l \<and> select_random self (\<lambda>n. j) (FList l) = Inr (FStr s)} =
       count_list l s"
    by (simp add: select_random_positions count_positions)
  from mask sel uni show ?thesis by blast
qed

lemma ex_getitem_random:
  "getitem ex_ext (ex_self\<lparr>caption_selection := ''random''\<rparr>) ex_rng ex_sample =
     Inr [''image'' \<mapsto> VImage (PILImage ex_image), ''drop_caption_mask'' \<mapsto> VFloat 1,
          ''captions'' \<mapsto> VTensor (T1 [7, 0]), ''attention_mask'' \<mapsto> VTensor (T2 [[1, 0]])]"
  by (simp add: step_defs ex_defs)

theorem caption_kept_at_probability_zero_witness:
  "caption_drop_prob (ex_self\<lparr>caption_selection := ''random''\<rparr>) = 0 \<and>
   rand_in_unit_interval ex_rng \<and> randbelow_in_range ex_rng \<and>
   getitem ex_ext (ex_self\<lparr>caption_selection := ''random''\<rparr>) ex_rng ex_sample =
     Inr [''image'' \<mapsto> VImage (PILImage ex_image), ''drop_caption_mask'' \<mapsto> VFloat 1,
          ''captions'' \<mapsto> VTensor (T1 [7, 0]), ''attention_mask'' \<mapsto> VTensor (T2 [[1, 0]])] \<and>
   tokenize_caption (ex_self\<lparr>caption_selection := ''random''\<rparr>) (FStr ''a puppy'') =
     Inr (T1 [7, 0], T2 [[1, 0]]) \<and>
   lookup (getitem ex_ext (ex_self\<lparr>caption_selection := ''random''\<rparr>) ex_rng ex_sample)
     ''drop_caption_mask'' = Some (VFloat 1)"
  using caption_kept_at_probability_zero
          [of "ex_self\<lparr>caption_selection := ''random''\<rparr>" ex_rng ex_ext ex_sample,
           OF _ ex_rng_unit ex_rng_range ex_getitem_random]
        ex_getitem_random ex_rng_unit ex_rng_range
  by (simp add: lookup_def ex_self_def tokenize_caption_def squeeze_def ex_tokenizer_def)

section \<open>Microconditioning in SDXL mode\<close>

lemma image_outputs_sdxl:
  assumes "sdxl self" and "image_outputs self g img0 (img, ct, cl) = Inr (base, n)"
  obtains new where "image_size img = Inr new" and "n = 3"
    and "base = microcond self g (ct, cl) (width img0, height img0) new
                  (Map.empty(''image'' \<mapsto> VImage img))"
  using assms by (auto simp: image_outputs_def split: sum.splits)

lemma microcond_lookup:
  "microcond self g (ct, cl) (ow, oh) (nw, nh) [''image'' \<mapsto> VImage img] ''cond_crops_coords_top_left'' =
     Some (VTensor (T1 (if torch_rand g 0 < microcond_drop_prob self then [0, 0] else [ct, cl])))"
  "microcond self g (ct, cl) (ow, oh) (nw, nh) [''image'' \<mapsto> VImage img] ''cond_original_size'' =
     Some (VTensor (T1 (if torch_rand g 1 < microcond_drop_prob self then [0, 0]
                        else [int ow, int oh])))"
  "microcond self g (ct, cl) (ow, oh) (nw, nh) [''image'' \<mapsto> VImage img] ''cond_target_size'' =
     Some (VTensor (T1 (if torch_rand g 2 < microcond_drop_prob self then [0, 0]
                        else [int nw, int nh])))"
  "microcond self g (ct, cl) (ow, oh) (nw, nh) [''image'' \<mapsto> VImage img] ''image'' =
     Some (VImage img)"
  by (simp_all add: microcond_def times0_def Let_def)

lemma getitem_sdxl:
  assumes s: "sdxl self" and r: "getitem x self g sample = Inr out"
  shows "\<exists>img0 img ct cl w h.
     load_image x self sample = Inr img0 \<and>
     image_transforms self img0 = (img, ct, cl) \<and>
     image_size img = Inr (w, h) \<and>
     out ''image'' = Some (VImage img) \<and>
     out ''cond_crops_coords_top_left'' =
       Some (VTensor (T1 (if torch_rand g 0 < microcond_drop_prob self then [0, 0] else [ct, cl]))) \<and>
     out ''cond_original_size'' =
       Some (VTensor (T1 (if torch_rand g 1 < microcond_drop_prob self then [0, 0]
                          else [int (width img0), int (height img0)]))) \<and>
     out ''cond_target_size'' =
       Some (VTensor (T1 (if torch_rand g 2 < microcond_drop_prob self then [0, 0]
                          else [int w, int h])))"
proof -
  from r obtain img0 base n caption m tc attn where
    l: "load_image x self sample = Inr img0" and
    i: "image_outputs self g img0 (image_transforms self img0) = Inr (base, n)" and
    o: "out = base(''drop_caption_mask'' \<mapsto> VFloat m, ''captions'' \<mapsto> VTensor tc,
                ''attention_mask'' \<mapsto> VTensor attn)"
    by (rule getitem_InrE)
  obtain img ct cl where tr: "image_transforms self img0 = (img, ct, cl)"
    by (cases "image_transforms self img0") auto
  from i tr have i': "image_outputs self g img0 (img, ct, cl) = Inr (base, n)" by simp
  from s i' obtain new where
    sz: "image_size img = Inr new" and
    b: "base = microcond self g (ct, cl) (width img0, height img0) new
                  (Map.empty(''image'' \<mapsto> VImage img))"
    by (rule image_outputs_sdxl)
  obtain w h where new: "new = (w, h)" by (cases new) auto
  note lk = getitem_lookup(4-7) [OF o]
  show ?thesis
    using l tr sz new lk b microcond_lookup [of self g ct cl "width img0" "height img0" w h img]
    by auto
qed

text \<open>
  Claim C5. In SDXL mode with a microconditioning-drop probability of 1.0 and draws in
  [0, 1), the three vectors \<^verbatim>\<open>cond_crops_coords_top_left\<close>, \<^verbatim>\<open>cond_original_size\<close> and
  \<^verbatim>\<open>cond_target_size\<close> of every produced sample are the zero vector.
\<close>

theorem microconditioning_zero_at_probability_one:
  assumes "sdxl self" and "microcond_drop_prob self = 1" and "rand_in_unit_interval g"
    and "getitem x self g sample = Inr out"
  shows "out ''cond_crops_coords_top_left'' = Some (VTensor (T1 [0, 0])) \<and>
         out ''cond_original_size'' = Some (VTensor (T1 [0, 0])) \<and>
         out ''cond_target_size'' = Some (VTensor (T1 [0, 0]))"
proof -
  have "torch_rand g k < microcond_drop_prob self" for k
    using assms(2,3) by (simp add: rand_in_unit_interval_def)
  with getitem_sdxl [OF assms(1,4)] show ?thesis by auto
qed

text \<open>
  Claim C8. In SDXL mode each of the three vectors has a draw of its own: the crop
  offsets are zeroed exactly when the first draw is below the drop probability, the
  original size when the second is, the target size when the third is. The values that
  are kept or zeroed (the offsets, the original size, the new size) do not depend on the
  draws, so no vector depends on another vector's draw.
\<close>

theorem microconditioning_draws_are_separate:
  assumes "sdxl self" and "getitem x self g sample = Inr out"
  shows "\<exists>img0 img ct cl w h.
     load_image x self sample = Inr img0 \<and>
     image_transforms self img0 = (img, ct, cl) \<and>
     image_size img = Inr (w, h) \<and>
     out ''cond_crops_coords_top_left'' =
       Some (VTensor (T1 (if torch_rand g 0 < microcond_drop_prob self then [0, 0] else [ct, cl]))) \<and>
     out ''cond_original_size'' =
       Some (VTensor (T1 (if torch_rand g 1 < microcond_drop_prob self then [0, 0]
                          else [int (width img0), int (height img0)]))) \<and>
     out ''cond_target_size'' =
       Some (VTensor (T1 (if torch_rand g 2 < microcond_drop_prob self then [0, 0]
                          else [int w, int h])))"
  using getitem_sdxl [OF assms] by blast

lemma image_transforms_no_crop:
  assumes "crop self = None" and "image_transforms self img0 = (img, ct, cl)"
  shows "ct = 0 \<and> cl = 0"
  using assms by (auto simp: image_transforms_def)

text \<open>
  Claim C7, amended. In SDXL mode with no crop, the crop offsets of a produced sample are
  (0, 0); \<^verbatim>\<open>cond_original_size\<close> is the size (W, H) of the decoded image when its draw
  is not below the microconditioning-drop probability, and \<^verbatim>\<open>cond_target_size\<close> is the
  size of the transformed image when its draw is not below it. Both hold for every
  sample when that probability is 0.0. As stated, without the condition on the dropout,
  the claim fails: a dropped vector is (0, 0).
\<close>

theorem microconditioning_sizes_without_crop:
  assumes "sdxl self" and "crop self = None" and "getitem x self g sample = Inr out"
  shows "\<exists>img0 img w h.
     load_image x self sample = Inr img0 \<and>
     out ''image'' = Some (VImage img) \<and>
     image_size img = Inr (w, h) \<and>
     out ''cond_crops_coords_top_left'' = Some (VTensor (T1 [0, 0])) \<and>
     (microcond_drop_prob self \<le> torch_rand g 1 \<longrightarrow>
        out ''cond_original_size'' = Some (VTensor (T1 [int (width img0), int (height img0)]))) \<and>
     (microcond_drop_prob self \<le> torch_rand g 2 \<longrightarrow>
        out ''cond_target_size'' = Some (VTensor (T1 [int w, int h])))"
proof -
  from getitem_sdxl [OF assms(1,3)] obtain img0 img ct cl w h where
    l: "load_image x self sample = Inr img0" and
    tr: "image_transforms self img0 = (img, ct, cl)" and
    sz: "image_size img = Inr (w, h)" and
    im: "out ''image'' = Some (VImage img)" and
    c: "out ''cond_crops_coords_top_left'' =
       Some (VTensor (T1 (if torch_rand g 0 < microcond_drop_prob self then [0, 0] else [ct, cl])))" and
    os: "out ''cond_original_size'' =
       Some (VTensor (T1 (if torch_rand g 1 < microcond_drop_prob self then [0, 0]
                          else [int (width img0), int (height img0)])))" and
    ts: "out ''cond_target_size'' =
       Some (VTensor (T1 (if torch_rand g 2 < microcond_drop_prob self then [0, 0]
                          else [int w, int h])))"
    by blast
  from image_transforms_no_crop [OF assms(2) tr] have z: "ct = 0" "cl = 0" by simp_all
  from c z have c0: "out ''cond_crops_coords_top_left'' = Some (VTensor (T1 [0, 0]))" by simp
  from l im sz c0 os ts show ?thesis by auto
qed

lemma ex_getitem_sdxl_mixed:
  "getitem ex_ext (ex_sdxl_self\<lparr>microcond_drop_prob := 1 / 2\<rparr>) ex_rng_mixed
     (ex_sample(''image'' \<mapsto> FImage \<lparr>mode = ''RGB'', width = 640, height = 480\<rparr>)) =
     Inr [''image'' \<mapsto> VImage (PILImage \<lparr>mode = ''RGB'', width = 640, height = 480\<rparr>),
          ''cond_crops_coords_top_left'' \<mapsto> VTensor (T1 [0, 0]),
          ''cond_original_size'' \<mapsto> VTensor (T1 [640, 480]),
          ''cond_target_size'' \<mapsto> VTensor (T1 [0, 0]),
          ''drop_caption_mask'' \<mapsto> VFloat 1,
          ''captions'' \<mapsto> VTensor (T2 [[5, 7, 0], [5, 0, 0]]),
          ''attention_mask'' \<mapsto> VTensor (T2 [[1, 1, 0]])]"
  by (simp add: step_defs ex_defs ex_rng_mixed_def)

lemma ex_getitem_sdxl_dropped:
  "getitem ex_ext (ex_sdxl_self\<lparr>microcond_drop_prob := 1\<rparr>) ex_rng ex_sample =
     Inr [''image'' \<mapsto> VImage (PILImage ex_image),
          ''cond_crops_coords_top_left'' \<mapsto> VTensor (T1 [0, 0]),
          ''cond_original_size'' \<mapsto> VTensor (T1 [0, 0]),
          ''cond_target_size'' \<mapsto> VTensor (T1 [0, 0]),
          ''drop_caption_mask'' \<mapsto> VFloat 1,
          ''captions'' \<mapsto> VTensor (T2 [[5, 7, 0], [5, 0, 0]]),
          ''attention_mask'' \<mapsto> VTensor (T2 [[1, 1, 0]])]"
  by (simp add: step_defs ex_defs)

lemma ex_getitem_sdxl_tensor:
  "getitem ex_ext (ex_sdxl_self\<lparr>transform := Some ex_to_tensor\<rparr>) ex_rng
     (ex_sample(''image'' \<mapsto> FImage \<lparr>mode = ''RGB'', width = 640, height = 480\<rparr>)) =
     Inr [''image'' \<mapsto> VImage (TensorImage [3, 480, 640]),
          ''cond_crops_coords_top_left'' \<mapsto> VTensor (T1 [0, 0]),
          ''cond_original_size'' \<mapsto> VTensor (T1 [640, 480]),
          ''cond_target_size'' \<mapsto> VTensor (T1 [640, 480]),
          ''drop_caption_mask'' \<mapsto> VFloat 1,
          ''captions'' \<mapsto> VTensor (T2 [[5, 7, 0], [5, 0, 0]]),
          ''attention_mask'' \<mapsto> VTensor (T2 [[1, 1, 0]])]"
  by (simp add: step_defs ex_defs)

theorem microconditioning_zero_at_probability_one_witness:
  "sdxl (ex_sdxl_self\<lparr>microcond_drop_prob := 1\<rparr>) \<and>
   microcond_drop_prob (ex_sdxl_self\<lparr>microcond_drop_prob := 1\<rparr>) = 1 \<and>
   rand_in_unit_interval ex_rng \<and>
   lookup (getitem ex_ext (ex_sdxl_self\<lparr>microcond_drop_prob := 1\<rparr>) ex_rng ex_sample)
     ''cond_crops_coords_top_left'' = Some (VTensor (T1 [0, 0])) \<and>
   lookup (getitem ex_ext (ex_sdxl_self\<lparr>microcond_drop_prob := 1\<rparr>) ex_rng ex_sample)
     ''cond_original_size'' = Some (VTensor (T1 [0, 0])) \<and>
   lookup (getitem ex_ext (ex_sdxl_self\<lparr>microcond_drop_prob := 1\<rparr>) ex_rng ex_sample)
     ''cond_target_size'' = Some (VTensor (T1 [0, 0]))"
  using microconditioning_zero_at_probability_one
          [of "ex_sdxl_self\<lparr>microcond_drop_prob := 1\<rparr>" ex_rng ex_ext ex_sample,
           OF _ _ ex_rng_unit ex_getitem_sdxl_dropped]
        ex_getitem_sdxl_dropped ex_rng_unit
  by (simp add: lookup_def ex_sdxl_self_def ex_self_def)

theorem microconditioning_draws_are_separate_witness:
  "sdxl (ex_sdxl_self\<lparr>microcond_drop_prob := 1 / 2\<rparr>) \<and>
   torch_rand ex_rng_mixed 0 < 1 / 2 \<and>
   \<not> torch_rand ex_rng_mixed 1 < 1 / 2 \<and>
   torch_rand ex_rng_mixed 2 < 1 / 2 \<and>
   lookup (getitem ex_ext (ex_sdxl_self\<lparr>microcond_drop_prob := 1 / 2\<rparr>) ex_rng_mixed
             (ex_sample(''image'' \<mapsto> FImage \<lparr>mode = ''RGB'', width = 640, height = 480\<rparr>)))
     ''cond_crops_coords_top_left'' = Some (VTensor (T1 [0, 0])) \<and>
   lookup (getitem ex_ext (ex_sdxl_self\<lparr>microcond_drop_prob := 1 / 2\<rparr>) ex_rng_mixed
             (ex_sample(''image'' \<mapsto> FImage \<lparr>mode = ''RGB'', width = 640, height = 480\<rparr>)))
     ''cond_original_size'' = Some (VTensor (T1 [640, 480])) \<and>
   lookup (getitem ex_ext (ex_sdxl_self\<lparr>microcond_drop_prob := 1 / 2\<rparr>) ex_rng_mixed
             (ex_sample(''image'' \<mapsto> FImage \<lparr>mode = ''RGB'', width = 640, height = 480\<rparr>)))
     ''cond_target_size'' = Some (VTensor (T1 [0, 0]))"
  using microconditioning_draws_are_separate
          [of "ex_sdxl_self\<lparr>microcond_drop_prob := 1 / 2\<rparr>" ex_ext ex_rng_mixed
              "ex_sample(''image'' \<mapsto> FImage \<lparr>mode = ''RGB'', width = 640, height = 480\<rparr>)",
           OF _ ex_getitem_sdxl_mixed]
        ex_getitem_sdxl_mixed
  by (simp add: lookup_def ex_sdxl_self_def ex_self_def ex_rng_mixed_def)

theorem microconditioning_sizes_without_crop_witness:
  "sdxl (ex_sdxl_self\<lparr>transform := Some ex_to_tensor\<rparr>) \<and>
   crop (ex_sdxl_self\<lparr>transform := Some ex_to_tensor\<rparr>) = None \<and>
   microcond_drop_prob (ex_sdxl_self\<lparr>transform := Some ex_to_tensor\<rparr>) \<le> torch_rand ex_rng 1 \<and>
   microcond_drop_prob (ex_sdxl_self\<lparr>transform := Some ex_to_tensor\<rparr>) \<le> torch_rand ex_rng 2 \<and>
   lookup (getitem ex_ext (ex_sdxl_self\<lparr>transform := Some ex_to_tensor\<rparr>) ex_rng
             (ex_sample(''image'' \<mapsto> FImage \<lparr>mode = ''RGB'', width = 640, height = 480\<rparr>)))
     ''image'' = Some (VImage (TensorImage [3, 480, 640])) \<and>
   lookup (getitem ex_ext (ex_sdxl_self\<lparr>transform := Some ex_to_tensor\<rparr>) ex_rng
             (ex_sample(''image'' \<mapsto> FImage \<lparr>mode = ''RGB'', width = 640, height = 480\<rparr>)))
     ''cond_crops_coords_top_left'' = Some (VTensor (T1 [0, 0])) \<and>
   lookup (getitem ex_ext (ex_sdxl_self\<lparr>transform := Some ex_to_tensor\<rparr>) ex_rng
             (ex_sample(''image'' \<mapsto> FImage \<lparr>mode = ''RGB'', width = 640, height = 480\<rparr>)))
     ''cond_original_size'' = Some (VTensor (T1 [640, 480])) \<and>
   lookup (getitem ex_ext (ex_sdxl_self\<lparr>transform := Some ex_to_tensor\<rparr>) ex_rng
             (ex_sample(''image'' \<mapsto> FImage \<lparr>mode = ''RGB'', width = 640, height = 480\<rparr>)))
     ''cond_target_size'' = Some (VTensor (T1 [640, 480]))"
  using microconditioning_sizes_without_crop
          [of "ex_sdxl_self\<lparr>transform := Some ex_to_tensor\<rparr>" ex_ext ex_rng
              "ex_sample(''image'' \<mapsto> FImage \<lparr>mode = ''RGB'', width = 640, height = 480\<rparr>)",
           OF _ _ ex_getitem_sdxl_tensor]
        ex_getitem_sdxl_tensor
  by (simp add: lookup_def ex_sdxl_self_def ex_self_def ex_rng_def)

text \<open>
  The claim as stated (no condition on the dropout) fails on the 256 by 256 image of the
  example record when the drop probability is 1.0: the original size stored is (0, 0).
\<close>

theorem microconditioning_sizes_without_crop_counterexample:
  "sdxl (ex_sdxl_self\<lparr>microcond_drop_prob := 1\<rparr>) \<and>
   crop (ex_sdxl_self\<lparr>microcond_drop_prob := 1\<rparr>) = None \<and>
   load_image ex_ext (ex_sdxl_self\<lparr>microcond_drop_prob := 1\<rparr>) ex_sample =
     Inr \<lparr>mode = ''RGB'', width = 256, height = 256\<rparr> \<and>
   lookup (getitem ex_ext (ex_sdxl_self\<lparr>microcond_drop_prob := 1\<rparr>) ex_rng ex_sample)
     ''cond_original_size'' = Some (VTensor (T1 [0, 0])) \<and>
   lookup (getitem ex_ext (ex_sdxl_self\<lparr>microcond_drop_prob := 1\<rparr>) ex_rng ex_sample)
     ''cond_original_size'' \<noteq> Some (VTensor (T1 [256, 256]))"
  using ex_getitem_sdxl_dropped
  by (simp add: lookup_def load_image_def ex_defs)

section \<open>Tokenization in SDXL mode\<close>

lemma logical_or_entries:
  assumes "logical_or a b = Inr bs"
  shows "length bs = (if length a = 1 then length b else length a)"
    and "\<forall>i<length bs. bs ! i =
           (a ! (if length a = 1 then 0 else i) \<noteq> 0 \<or> b ! (if length b = 1 then 0 else i) \<noteq> 0)"
  using assms by (auto simp: logical_or_def split: if_splits)

lemma to_int_entries:
  "length (to_int bs) = length bs"
  "i < length bs \<Longrightarrow> to_int bs ! i = (if bs ! i then 1 else 0)"
  by (simp_all add: to_int_def)

lemma tokenize_caption_sdxl:
  assumes "sdxl self" and "tokenize_caption self caption = Inr (tc, attn)"
  obtains t m0 m1 rest bs where
    "tokenize (tokenizer self) caption None = Inr t"
    "tc = T2 (input_ids t)"
    "attention_mask t = m0 # m1 # rest"
    "logical_or m0 m1 = Inr bs"
    "attn = T2 [to_int bs]"
proof -
  from assms obtain t where t: "tokenize (tokenizer self) caption None = Inr t"
    by (auto simp: tokenize_caption_def split: sum.splits)
  from assms t have st: "stack (input_ids t) = Inr tc"
    by (auto simp: tokenize_caption_def Let_def split: sum.splits if_splits)
  then have tc: "tc = T2 (input_ids t)"
    by (auto simp: stack_def split: list.splits if_splits)
  from assms t st have len: "\<not> length (attention_mask t) < 2"
    by (auto simp: tokenize_caption_def Let_def split: sum.splits if_splits)
  then obtain m0 m1 rest where ms: "attention_mask t = m0 # m1 # rest"
    by (cases "attention_mask t"; cases "tl (attention_mask t)") auto
  from assms t st len ms obtain bs where
    "logical_or m0 m1 = Inr bs" "attn = T2 [to_int bs]"
    by (auto simp: tokenize_caption_def Let_def split: sum.splits if_splits)
  with t tc ms show ?thesis by (rule that)
qed

text \<open>
  Claim C6. In SDXL mode, for the caption that the caption part selects (its draw is call
  number 3), a produced sample stores under \<^verbatim>\<open>captions\<close> the tokenizer's id sequences
  stacked along a new leading axis, and under \<^verbatim>\<open>attention_mask\<close> one row whose entry at
  each position is 1 when the first or the second sub-tokenizer's mask is not zero there,
  and 0 otherwise: the logical OR, cast back to integers. Masks of equal length are read
  at the same position; a mask of length 1 is broadcast.
\<close>

theorem sdxl_attention_mask_is_union:
  assumes s: "sdxl self" and r: "getitem x self g sample = Inr out"
  shows "\<exists>caption m t m0 m1 rest row.
     caption_step self (torch_rand g 3) (randbelow g) sample = Inr (caption, m) \<and>
     tokenize (tokenizer self) caption None = Inr t \<and>
     out ''captions'' = Some (VTensor (T2 (input_ids t))) \<and>
     attention_mask t = m0 # m1 # rest \<and>
     out ''attention_mask'' = Some (VTensor (T2 [row])) \<and>
     length row = (if length m0 = 1 then length m1 else length m0) \<and>
     (\<forall>i<length row. row ! i =
        (if m0 ! (if length m0 = 1 then 0 else i) \<noteq> 0 \<or>
            m1 ! (if length m1 = 1 then 0 else i) \<noteq> 0 then 1 else 0)) \<and>
     (length m0 = length m1 \<longrightarrow>
        (\<forall>i<length m0. row ! i = (if m0 ! i \<noteq> 0 \<or> m1 ! i \<noteq> 0 then 1 else 0)))"
proof -
  from r obtain img0 base n caption m tc attn where
    i: "image_outputs self g img0 (image_transforms self img0) = Inr (base, n)" and
    c: "caption_step self (torch_rand g n) (randbelow g) sample = Inr (caption, m)" and
    t: "tokenize_caption self caption = Inr (tc, attn)" and
    o: "out = base(''drop_caption_mask'' \<mapsto> VFloat m, ''captions'' \<mapsto> VTensor tc,
                ''attention_mask'' \<mapsto> VTensor attn)"
    by (rule getitem_InrE)
  obtain img ct cl where "image_transforms self img0 = (img, ct, cl)"
    by (cases "image_transforms self img0") auto
  with i have "image_outputs self g img0 (img, ct, cl) = Inr (base, n)" by simp
  with s have n: "n = 3" by (rule image_outputs_sdxl)
  from s t obtain tk m0 m1 rest bs where
    tk: "tokenize (tokenizer self) caption None = Inr tk" and
    tc: "tc = T2 (input_ids tk)" and
    ms: "attention_mask tk = m0 # m1 # rest" and
    lo: "logical_or m0 m1 = Inr bs" and
    at: "attn = T2 [to_int bs]"
    by (rule tokenize_caption_sdxl)
  define row where "row = to_int bs"
  have len: "length row = (if length m0 = 1 then length m1 else length m0)"
    using logical_or_entries(1) [OF lo] by (simp add: row_def to_int_entries)
  have ent: "\<forall>i<length row. row ! i =
        (if m0 ! (if length m0 = 1 then 0 else i) \<noteq> 0 \<or>
            m1 ! (if length m1 = 1 then 0 else i) \<noteq> 0 then 1 else 0)"
    using logical_or_entries(2) [OF lo] by (simp add: row_def to_int_entries)
  have eq: "length m0 = length m1 \<longrightarrow>
        (\<forall>i<length m0. row ! i = (if m0 ! i \<noteq> 0 \<or> m1 ! i \<noteq> 0 then 1 else 0))"
  proof (intro impI allI)
    fix i assume e: "length m0 = length m1" and b: "i < length m0"
    from e len b have "i < length row" by simp
    with ent have "row ! i =
        (if m0 ! (if length m0 = 1 then 0 else i) \<noteq> 0 \<or>
            m1 ! (if length m1 = 1 then 0 else i) \<noteq> 0 then 1 else 0)" by blast
    moreover from e b have "(if length m0 = 1 then 0 else i) = i" "(if length m1 = 1 then 0 else i) = i"
      by auto
    ultimately show "row ! i = (if m0 ! i \<noteq> 0 \<or> m1 ! i \<noteq> 0 then 1 else 0)" by simp
  qed
  from getitem_lookup(2,3) [OF o] tc at
  have "out ''captions'' = Some (VTensor (T2 (input_ids tk)))"
       "out ''attention_mask'' = Some (VTensor (T2 [row]))"
    by (simp_all add: row_def)
  with c n tk ms len ent eq show ?thesis by blast
qed

theorem sdxl_attention_mask_is_union_witness:
  "sdxl ex_sdxl_self \<and>
   tokenize (tokenizer ex_sdxl_self) (FStr ''a dog'') None =
     Inr \<lparr>input_ids = [[5, 7, 0], [5, 0, 0]], attention_mask = [[1, 1, 0], [1, 0, 0]]\<rparr> \<and>
   lookup (getitem ex_ext ex_sdxl_self ex_rng ex_sample) ''captions'' =
     Some (VTensor (T2 [[5, 7, 0], [5, 0, 0]])) \<and>
   lookup (getitem ex_ext ex_sdxl_self ex_rng ex_sample) ''attention_mask'' =
     Some (VTensor (T2 [[1, 1, 0]]))"
  using sdxl_attention_mask_is_union [of ex_sdxl_self ex_ext ex_rng ex_sample, OF _ ex_getitem_sdxl]
        ex_getitem_sdxl
  by (simp add: lookup_def ex_sdxl_self_def ex_self_def ex_sdxl_tokenizer_def)

section \<open>Construction\<close>

lemma str_lower_FIRST: "str_lower ''FIRST'' = ''first''"
  by code_simp

lemma ex_init_upper:
  "init ex_ext (ex_init_args ''FIRST'') =
     Inr \<lparr>streams = None, crop = None, transform = None, sdxl = False,
          caption_drop_prob = 0, microcond_drop_prob = 0, caption_selection = ''first'',
          image_key = ''image'', caption_key = ''caption'', zero_dropped_captions = False,
          tokenizer = ex_tokenizer\<rparr>"
  by (simp add: init_def ex_init_args_def ex_ext_def load_tokenizer_def str_lower_FIRST)

lemma str_lower_Longest: "str_lower ''Longest'' = ''longest''"
  by code_simp

text \<open>
  Claim C2, amended. When the base class accepts its arguments, construction depends on
  the caption-selection policy after lowercasing: if the lowercased value is 'first' or
  'random', construction succeeds whenever the tokenizer loads, and stores the lowercased
  value; otherwise it fails with the \<^verbatim>\<open>ValueError\<close> for an invalid caption selection. As
  stated (any string other than the two values fails) the claim is false: 'FIRST' is
  accepted.
\<close>

theorem init_caption_selection:
  assumes base: "StreamingDataset_init x (i_streams a) (i_remote a) (i_local a)
                   (init_streaming_kwargs (i_streaming_kwargs a)) = None"
  shows "(str_lower (i_caption_selection a) \<in> {''first'', ''random''} \<longrightarrow>
            (\<forall>tok. load_tokenizer x (i_sdxl a) (i_tokenizer_name_or_path a) = Inr tok \<longrightarrow>
               (\<exists>d. init x a = Inr d \<and>
                    caption_selection d = str_lower (i_caption_selection a)))) \<and>
         (str_lower (i_caption_selection a) \<notin> {''first'', ''random''} \<longrightarrow>
            init x a =
              Inl (ValueError (InvalidCaptionSelection (str_lower (i_caption_selection a)))))"
  using base by (auto simp: init_def Let_def)

theorem init_caption_selection_witness:
  "StreamingDataset_init ex_ext (i_streams (ex_init_args ''FIRST'')) (i_remote (ex_init_args ''FIRST''))
     (i_local (ex_init_args ''FIRST''))
     (init_streaming_kwargs (i_streaming_kwargs (ex_init_args ''FIRST''))) = None \<and>
   str_lower (i_caption_selection (ex_init_args ''FIRST'')) = ''first'' \<and>
   load_tokenizer ex_ext (i_sdxl (ex_init_args ''FIRST''))
     (i_tokenizer_name_or_path (ex_init_args ''FIRST'')) = Inr ex_tokenizer \<and>
   (\<exists>d. init ex_ext (ex_init_args ''FIRST'') = Inr d \<and> caption_selection d = ''first'') \<and>
   init ex_ext (ex_init_args ''Longest'') = Inl (ValueError (InvalidCaptionSelection ''longest''))"
proof -
  have b: "StreamingDataset_init ex_ext (i_streams (ex_init_args s)) (i_remote (ex_init_args s))
     (i_local (ex_init_args s)) (init_streaming_kwargs (i_streaming_kwargs (ex_init_args s))) = None"
    for s
    by (simp add: ex_ext_def)
  have l: "str_lower (i_caption_selection (ex_init_args ''FIRST'')) = ''first''"
    by (simp add: ex_init_args_def str_lower_FIRST)
  have l2: "str_lower (i_caption_selection (ex_init_args ''Longest'')) = ''longest''"
    by (simp add: ex_init_args_def str_lower_Longest)
  have t: "load_tokenizer ex_ext (i_sdxl (ex_init_args ''FIRST''))
     (i_tokenizer_name_or_path (ex_init_args ''FIRST'')) = Inr ex_tokenizer"
    by (simp add: load_tokenizer_def ex_init_args_def ex_ext_def)
  from init_caption_selection [OF b [of "''FIRST''"]] l t
  have 1: "\<exists>d. init ex_ext (ex_init_args ''FIRST'') = Inr d \<and> caption_selection d = ''first''"
    by simp
  from init_caption_selection [OF b [of "''Longest''"]] l2
  have 2: "init ex_ext (ex_init_args ''Longest'') = Inl (ValueError (InvalidCaptionSelection ''longest''))"
    by simp
  from b l t 1 2 show ?thesis by blast
qed

theorem init_caption_selection_counterexample:
  "''FIRST'' \<notin> {''first'', ''random''} \<and>
   init ex_ext (ex_init_args ''FIRST'') =
     Inr \<lparr>streams = None, crop = None, transform = None, sdxl = False,
          caption_drop_prob = 0, microcond_drop_prob = 0, caption_selection = ''first'',
          image_key = ''image'', caption_key = ''caption'', zero_dropped_captions = False,
          tokenizer = ex_tokenizer\<rparr>"
  using ex_init_upper by simp

section \<open>The builder\<close>

lemma str_lower_square: "str_lower ''square'' = ''square''"
  by code_simp

lemma str_lower_first: "str_lower ''first'' = ''first''"
  by code_simp

lemma init_sdxl:
  assumes "init x ia = Inr d"
  shows "sdxl d = i_sdxl ia"
    and "load_tokenizer x (i_sdxl ia) (i_tokenizer_name_or_path ia) = Inr (tokenizer d)"
  using assms
  by (auto simp: init_def Let_def split: option.splits if_splits sum.splits)

lemma build_InrE:
  assumes "build_streaming_image_caption_dataloader x a = Inr dl"
  obtains ia where "init x ia = Inr (dl_dataset dl)"
    and "i_sdxl ia = (b_tokenizer_name_or_path a = ''stabilityai/stable-diffusion-xl-base-1.0'')"
    and "i_tokenizer_name_or_path ia = b_tokenizer_name_or_path a"
  using assms unfolding build_streaming_image_caption_dataloader_def Let_def
  by (fastforce split: sum.splits if_splits option.splits)

text \<open>
  Claim C9. A data loader that the builder returns is in SDXL mode exactly when the
  tokenizer identifier is the string 'stabilityai/stable-diffusion-xl-base-1.0', and its
  tokenizer was loaded for that mode. Two calls with the same identifier give the same
  mode, whatever their other arguments and collaborators: a key \<^verbatim>\<open>sdxl\<close> in
  \<^verbatim>\<open>streaming_kwargs\<close> cannot override it, the call raises instead.
\<close>

theorem sdxl_mode_from_tokenizer_name:
  assumes "build_streaming_image_caption_dataloader x a = Inr dl"
  shows "sdxl (dl_dataset dl) =
           (b_tokenizer_name_or_path a = ''stabilityai/stable-diffusion-xl-base-1.0'') \<and>
         load_tokenizer x (sdxl (dl_dataset dl)) (b_tokenizer_name_or_path a) =
           Inr (tokenizer (dl_dataset dl)) \<and>
         (\<forall>x' a' dl'.
            build_streaming_image_caption_dataloader x' a' = Inr dl' \<and>
            b_tokenizer_name_or_path a' = b_tokenizer_name_or_path a \<longrightarrow>
            sdxl (dl_dataset dl') = sdxl (dl_dataset dl))"
proof -
  have mode: "sdxl (dl_dataset d) =
           (b_tokenizer_name_or_path b = ''stabilityai/stable-diffusion-xl-base-1.0'') \<and>
         load_tokenizer y (sdxl (dl_dataset d)) (b_tokenizer_name_or_path b) =
           Inr (tokenizer (dl_dataset d))"
    if "build_streaming_image_caption_dataloader y b = Inr d" for y b d
  proof -
    from that obtain ia where
      i: "init y ia = Inr (dl_dataset d)" and
      s: "i_sdxl ia = (b_tokenizer_name_or_path b = ''stabilityai/stable-diffusion-xl-base-1.0'')" and
      n: "i_tokenizer_name_or_path ia = b_tokenizer_name_or_path b"
      by (rule build_InrE)
    from init_sdxl [OF i] s n show ?thesis by simp
  qed
  from mode [OF assms] mode show ?thesis by auto
qed

lemma ex_build_sdxl:
  "build_streaming_image_caption_dataloader ex_ext
     (ex_args\<lparr>b_local := LList [''l1'', ''l2''],
              b_tokenizer_name_or_path := ''stabilityai/stable-diffusion-xl-base-1.0''\<rparr>) =
   Inr \<lparr>dl_dataset =
          \<lparr>streams = Some [\<lparr>s_remote = ''r1'', s_local = ''l1''\<rparr>, \<lparr>s_remote = ''r2'', s_local = ''l2''\<rparr>],
           crop = Some (ex_crop 256),
           transform = Some (Compose [ex_to_tensor, \<lambda>img. img]),
           sdxl = True,
           caption_drop_prob = 0, microcond_drop_prob = 0, caption_selection = ''first'',
           image_key = ''image'', caption_key = ''caption'', zero_dropped_captions = True,
           tokenizer = ex_sdxl_tokenizer\<rparr>,
        dl_batch_size = 8,
        dl_kwargs = Map.empty\<rparr>"
  by (simp add: build_streaming_image_caption_dataloader_def check_crop_type_def str_lower_square
      check_remote_local_def isinstance_str_def isinstance_Sequence_def len_def make_streams_def
      iterate_def select_crop_def repeats_def dataset_keywords_def dataloader_keywords_def
      init_def str_lower_first load_tokenizer_def ex_args_def ex_ext_def)

theorem sdxl_mode_from_tokenizer_name_witness:
  "built_streams (build_streaming_image_caption_dataloader ex_ext
     (ex_args\<lparr>b_local := LList [''l1'', ''l2''],
              b_tokenizer_name_or_path := ''stabilityai/stable-diffusion-xl-base-1.0''\<rparr>)) =
     Inr (Some [\<lparr>s_remote = ''r1'', s_local = ''l1''\<rparr>, \<lparr>s_remote = ''r2'', s_local = ''l2''\<rparr>]) \<and>
   sdxl (dl_dataset (projr (build_streaming_image_caption_dataloader ex_ext
     (ex_args\<lparr>b_local := LList [''l1'', ''l2''],
              b_tokenizer_name_or_path := ''stabilityai/stable-diffusion-xl-base-1.0''\<rparr>)))) \<and>
   tokenizer (dl_dataset (projr (build_streaming_image_caption_dataloader ex_ext
     (ex_args\<lparr>b_local := LList [''l1'', ''l2''],
              b_tokenizer_name_or_path := ''stabilityai/stable-diffusion-xl-base-1.0''\<rparr>)))) =
     ex_sdxl_tokenizer"
  using sdxl_mode_from_tokenizer_name [OF ex_build_sdxl] ex_build_sdxl
  by (simp add: built_streams_def)

text \<open>
  Claim C1. On \<^verbatim>\<open>remote\<close> of length 2 and \<^verbatim>\<open>local\<close> of length 3 the check builds the
  \<^verbatim>\<open>ValueError\<close> for mismatched lengths and drops it; the builder returns a data loader
  over the two streams that \<^verbatim>\<open>zip\<close> yields. On \<^verbatim>\<open>None\<close> and a list it builds and drops
  the \<^verbatim>\<open>ValueError\<close> for the argument types, and it is \<^verbatim>\<open>zip\<close> that raises, a
  \<^verbatim>\<open>TypeError\<close>. A string with a list of as many entries as it has characters passes
  the check as two sequences, and gives one stream per character.
\<close>

theorem build_does_not_raise_on_mismatch:
  "snd (check_remote_local (b_remote ex_args) (b_local ex_args)) =
     Some (ValueError (MismatchedLength 2 3)) \<and>
   built_streams (build_streaming_image_caption_dataloader ex_ext ex_args) =
     Inr (Some [\<lparr>s_remote = ''r1'', s_local = ''l1''\<rparr>, \<lparr>s_remote = ''r2'', s_local = ''l2''\<rparr>]) \<and>
   snd (check_remote_local LNone (LList [''l1''])) = Some (ValueError InvalidArgumentType) \<and>
   built_streams (build_streaming_image_caption_dataloader ex_ext
     (ex_args\<lparr>b_remote := LNone, b_local := LList [''l1'']\<rparr>)) = Inl TypeError \<and>
   snd (check_remote_local (LStr ''ab'') (LList [''x'', ''y''])) = None \<and>
   built_streams (build_streaming_image_caption_dataloader ex_ext
     (ex_args\<lparr>b_remote := LStr ''ab'', b_local := LList [''x'', ''y'']\<rparr>)) =
     Inr (Some [\<lparr>s_remote = ''a'', s_local = ''x''\<rparr>, \<lparr>s_remote = ''b'', s_local = ''y''\<rparr>])"
  by (simp add: built_streams_def
      build_streaming_image_caption_dataloader_def check_crop_type_def str_lower_square
      check_remote_local_def isinstance_str_def isinstance_Sequence_def len_def make_streams_def
      iterate_def select_crop_def repeats_def dataset_keywords_def dataloader_keywords_def
      init_def str_lower_first load_tokenizer_def ex_args_def ex_ext_def)

end
